theory Spec2Isabelle
  imports Complex_Main "HOL-Library.Sublist" "HOL-Library.AList"
begin

section \<open>Strings\<close>

text \<open>
  Python strings are modelled as Isabelle strings (lists of 8-bit characters). The
  model is exact on ASCII text; a character outside ASCII is never a letter, a digit or
  white space here.
\<close>

definition lower_char :: "char \<Rightarrow> char" where
  "lower_char c =
     (case map_of (zip ''ABCDEFGHIJKLMNOPQRSTUVWXYZ'' ''abcdefghijklmnopqrstuvwxyz'') c of
        None \<Rightarrow> c
      | Some l \<Rightarrow> l)"

definition lower :: "string \<Rightarrow> string" where
  "lower s = map lower_char s"

text \<open>\<open>sub in s\<close> on strings: \<open>sub\<close> occurs in \<open>s\<close> as a contiguous block.\<close>

fun str_contains :: "string \<Rightarrow> string \<Rightarrow> bool" where
  "str_contains [] sub = (sub = [])"
| "str_contains (c # cs) sub = (prefix sub (c # cs) \<or> str_contains cs sub)"

text \<open>\<open>any(word in s for word in words)\<close>.\<close>

definition any_in :: "string list \<Rightarrow> string \<Rightarrow> bool" where
  "any_in words s = list_ex (str_contains s) words"

section \<open>Time\<close>

text \<open>
  A naive \<open>datetime\<close> is the number of microseconds since 0001-01-01T00:00:00, the first
  day of the proleptic Gregorian calendar, which is a Monday. A \<open>timedelta\<close> is a number of
  microseconds. The bounds of Python's \<open>datetime\<close> (years 1 to 9999) are not modelled.
\<close>

type_synonym datetime = int

definition us_per_minute :: int where "us_per_minute = 60000000"
definition us_per_hour :: int where "us_per_hour = 3600000000"
definition us_per_day :: int where "us_per_day = 86400000000"

definition timedelta_minutes :: "int \<Rightarrow> int" where
  "timedelta_minutes n = n * us_per_minute"

definition timedelta_days :: "int \<Rightarrow> int" where
  "timedelta_days n = n * us_per_day"

text \<open>\<open>t.date()\<close> as a day number, \<open>t.hour\<close>, \<open>t.minute\<close> and \<open>t.weekday()\<close> (Monday is 0).\<close>

definition date_of :: "datetime \<Rightarrow> int" where
  "date_of t = t div us_per_day"

definition hour_of :: "datetime \<Rightarrow> int" where
  "hour_of t = (t mod us_per_day) div us_per_hour"

definition minute_of :: "datetime \<Rightarrow> int" where
  "minute_of t = ((t mod us_per_day) mod us_per_hour) div us_per_minute"

definition weekday :: "datetime \<Rightarrow> int" where
  "weekday t = date_of t mod 7"

text \<open>\<open>t.replace(hour=h, minute=0, second=0, microsecond=0)\<close> for \<open>h\<close> in \<open>range(9, 17)\<close>.\<close>

definition replace_hour :: "datetime \<Rightarrow> int \<Rightarrow> datetime" where
  "replace_hour t h = date_of t * us_per_day + h * us_per_hour"

text \<open>The clock time \<open>h:m\<close> on day \<open>d\<close>.\<close>

definition at_time :: "int \<Rightarrow> int \<Rightarrow> int \<Rightarrow> datetime" where
  "at_time d h m = d * us_per_day + h * us_per_hour + m * us_per_minute"

section \<open>Python values\<close>

text \<open>
  The values that travel through JSON and through the agent's dictionaries: \<open>None\<close>,
  booleans, integers, strings, lists and dictionaries with string keys (in insertion
  order). Floating-point numbers are not modelled.
\<close>

datatype pyval =
  PNone | PBool bool | PInt int | PStr string | PList "pyval list" | PDict "(string \<times> pyval) list"

section \<open>The meeting store\<close>

text \<open>
  A row of the \<open>meetings\<close> table (\<open>app/models/schedule.py\<close>). The columns \<open>constraints\<close>,
  \<open>created_at\<close> and \<open>updated_at\<close> are read by none of the operations below and are left
  out. The table is the list of its rows in insertion order; a query that the store
  answers is a filter over that list. The \<open>participants\<close> column is a JSON list: user
  ids, and whatever else the agent stored there. A user id handed to the service is a
  Python value for the same reason; \<open>PInt u\<close> is the user with id \<open>u\<close>.
\<close>

record meeting =
  meeting_id :: int
  title :: string
  description :: "string option"
  duration_minutes :: int
  start_time :: datetime
  end_time :: datetime
  organizer_id :: int
  participants :: "pyval list"
  status :: string
  meeting_type :: string

text \<open>
  \<open>ScheduleService.check_meeting_conflicts\<close>: the query
  \<open>(organizer_id == user_id) | participants.contains([user_id])\<close>,
  \<open>status.in_(["proposed", "confirmed"])\<close>, \<open>start_time < end_time\<close>,
  \<open>end_time > start_time\<close>, with \<open>contains\<close> read as membership in the JSON list.
\<close>

definition check_meeting_conflicts :: "meeting list \<Rightarrow> pyval \<Rightarrow> datetime \<Rightarrow> datetime \<Rightarrow> meeting list" where
  "check_meeting_conflicts db user_id s e =
     filter (\<lambda>m. (PInt (organizer_id m) = user_id \<or> user_id \<in> set (participants m))
               \<and> status m \<in> set [''proposed'', ''confirmed'']
               \<and> start_time m < e
               \<and> end_time m > s) db"

subsection \<open>Reading and writing rows\<close>





text \<open>\<open>ScheduleService.get_meeting\<close>: the first row with the id, if any.\<close>

definition get_meeting :: "meeting list \<Rightarrow> int \<Rightarrow> meeting option" where
  "get_meeting db i = find (\<lambda>m. meeting_id m = i) db"


text \<open>\<open>MeetingUpdate\<close> (without \<open>constraints\<close>) and \<open>ScheduleService.update_meeting\<close>.\<close>

record meeting_update =
  mu_title :: "string option"
  mu_description :: "string option"
  mu_duration_minutes :: "int option"
  mu_start_time :: "datetime option"
  mu_end_time :: "datetime option"
  mu_participants :: "pyval list option"
  mu_status :: "string option"


definition apply_update :: "meeting_update \<Rightarrow> meeting \<Rightarrow> meeting" where
  "apply_update u m =
     m\<lparr>title := (case mu_title u of None \<Rightarrow> title m | Some v \<Rightarrow> v),
       description := (case mu_description u of None \<Rightarrow> description m | Some v \<Rightarrow> Some v),
       duration_minutes := (case mu_duration_minutes u of None \<Rightarrow> duration_minutes m | Some v \<Rightarrow> v),
       start_time := (case mu_start_time u of None \<Rightarrow> start_time m | Some v \<Rightarrow> v),
       end_time := (case mu_end_time u of None \<Rightarrow> end_time m | Some v \<Rightarrow> v),
       participants := (case mu_participants u of None \<Rightarrow> participants m | Some v \<Rightarrow> v),
       status := (case mu_status u of None \<Rightarrow> status m | Some v \<Rightarrow> v)\<rparr>"

text \<open>The first row with the id is replaced, as \<open>get_meeting\<close> finds it.\<close>

fun replace_row :: "int \<Rightarrow> meeting \<Rightarrow> meeting list \<Rightarrow> meeting list" where
  "replace_row i m' [] = []"
| "replace_row i m' (m # ms) = (if meeting_id m = i then m' # ms else m # replace_row i m' ms)"


text \<open>
  \<open>ScheduleService.delete_meeting\<close>: the row must exist and, when a user id is given, that
  user must be its organizer. The first row with the id is removed and a copy is returned.
\<close>

fun remove_row :: "int \<Rightarrow> meeting list \<Rightarrow> meeting list" where
  "remove_row i [] = []"
| "remove_row i (m # ms) = (if meeting_id m = i then ms else m # remove_row i ms)"

definition delete_meeting :: "meeting list \<Rightarrow> int \<Rightarrow> int option \<Rightarrow> meeting list \<times> meeting option" where
  "delete_meeting db i user_id =
     (case get_meeting db i of
        None \<Rightarrow> (db, None)
      | Some m \<Rightarrow>
          (case user_id of
             None \<Rightarrow> (remove_row i db, Some m)
           | Some u \<Rightarrow> if organizer_id m \<noteq> u then (db, None) else (remove_row i db, Some m)))"

subsection \<open>The slot search\<close>

text \<open>
  An entry of the suggestion list. The source stores \<open>isoformat()\<close> strings and reads them
  back with \<open>fromisoformat\<close>; on naive datetimes the two are inverse, and the model keeps
  the datetimes.
\<close>

record suggestion =
  sug_start :: datetime
  sug_end :: datetime
  sug_date :: int
  participant_count :: nat

text \<open>The inner loop over the participants, which stops at the first one with a conflict.\<close>

definition all_available :: "meeting list \<Rightarrow> pyval list \<Rightarrow> datetime \<Rightarrow> datetime \<Rightarrow> bool" where
  "all_available db participant_ids slot_start slot_end =
     list_all (\<lambda>user_id. check_meeting_conflicts db user_id slot_start slot_end = []) participant_ids"

definition make_slot :: "pyval list \<Rightarrow> int \<Rightarrow> datetime \<Rightarrow> int \<Rightarrow> suggestion" where
  "make_slot participant_ids dur current_date hour =
     (let slot_start = replace_hour current_date hour;
          slot_end = slot_start + timedelta_minutes dur
      in \<lparr>sug_start = slot_start, sug_end = slot_end, sug_date = date_of current_date,
          participant_count = length participant_ids\<rparr>)"

text \<open>The loop \<open>for hour in range(9, 17)\<close> on one day.\<close>

definition day_slots :: "meeting list \<Rightarrow> pyval list \<Rightarrow> int \<Rightarrow> datetime \<Rightarrow> suggestion list" where
  "day_slots db participant_ids dur current_date =
     filter (\<lambda>g. all_available db participant_ids (sug_start g) (sug_end g))
       (map (make_slot participant_ids dur current_date) [9..16])"

text \<open>The loop \<open>while current_date <= end_date\<close>, which steps by one day.\<close>

function suggestions_from :: "meeting list \<Rightarrow> pyval list \<Rightarrow> int \<Rightarrow> datetime \<Rightarrow> datetime \<Rightarrow> suggestion list" where
  "suggestions_from db participant_ids dur current_date end_date =
     (if current_date \<le> end_date
      then day_slots db participant_ids dur current_date
           @ suggestions_from db participant_ids dur (current_date + timedelta_days 1) end_date
      else [])"
  by pat_completeness auto
termination
  by (relation "measure (\<lambda>(db, ps, dur, c, e). nat (e - c + 1))")
     (auto simp: timedelta_days_def us_per_day_def)

declare suggestions_from.simps [simp del]

text \<open>\<open>ScheduleService.get_meeting_suggestions\<close>.\<close>

definition get_meeting_suggestions :: "meeting list \<Rightarrow> pyval list \<Rightarrow> int \<Rightarrow> datetime \<Rightarrow> datetime \<Rightarrow> suggestion list" where
  "get_meeting_suggestions db participant_ids dur start_date end_date =
     take 10 (suggestions_from db participant_ids dur start_date end_date)"



subsection \<open>Auto-reschedule\<close>








section \<open>The intent classifier\<close>

datatype intent =
  ViewMeetings | CreateMeeting | UpdateMeeting | DeleteMeeting | DeleteAllMeetings | Conversation

text \<open>\<open>SchedulingAgent._analyze_intent\<close>, rule by rule in the source's order.\<close>

definition analyze_intent :: "string \<Rightarrow> intent" where
  "analyze_intent message =
     (let message_lower = lower message in
      if any_in [''show'', ''view'', ''see'', ''what'', ''meetings'', ''schedule'', ''calendar''] message_lower
         \<and> any_in [''my'', ''have'', ''scheduled''] message_lower
      then ViewMeetings
      else if any_in [''schedule'', ''create'', ''set up'', ''book'', ''arrange'', ''meeting''] message_lower
         \<and> any_in [''new'', ''a'', ''with''] message_lower
      then CreateMeeting
      else if any_in [''change'', ''update'', ''modify'', ''move'', ''reschedule'', ''edit''] message_lower
      then UpdateMeeting
      else if any_in [''cancel'', ''delete'', ''remove'', ''clear''] message_lower
      then DeleteMeeting
      else if any_in [''all'', ''everything'', ''clear all''] message_lower
         \<and> any_in [''cancel'', ''delete'', ''remove''] message_lower
      then DeleteAllMeetings
      else Conversation)"

section \<open>The agent: values, strings, environment\<close>

text \<open>\<open>str.strip()\<close>: white space is removed at both ends.\<close>

definition is_space :: "char \<Rightarrow> bool" where
  "is_space c \<longleftrightarrow>
     c \<in> set [CHR 0x09, CHR 0x0A, CHR 0x0B, CHR 0x0C, CHR 0x0D,
                CHR 0x1C, CHR 0x1D, CHR 0x1E, CHR 0x1F, CHR 0x20]"

definition strip :: "string \<Rightarrow> string" where
  "strip s = rev (dropWhile is_space (rev (dropWhile is_space s)))"


text \<open>Truth value of a Python value, as \<open>if x:\<close> and \<open>not x\<close> test it.\<close>

fun truthy :: "pyval \<Rightarrow> bool" where
  "truthy PNone = False"
| "truthy (PBool b) = b"
| "truthy (PInt n) = (n \<noteq> 0)"
| "truthy (PStr s) = (s \<noteq> [])"
| "truthy (PList xs) = (xs \<noteq> [])"
| "truthy (PDict kvs) = (kvs \<noteq> [])"

text \<open>The exceptions that the modelled code can raise.\<close>

datatype exn = KeyError | ValueError | AttributeError | TypeError | LlmFailure string

text \<open>
  A dictionary is the list of its items in insertion order. \<open>d.get(k)\<close> and \<open>d.get(k, v)\<close>
  on a dictionary; \<open>x.get(k)\<close> on a value, which raises unless the value is a dictionary.
\<close>

type_synonym pydict = "(string \<times> pyval) list"

definition dget :: "pydict \<Rightarrow> string \<Rightarrow> pyval" where
  "dget d k = (case map_of d k of None \<Rightarrow> PNone | Some v \<Rightarrow> v)"

definition dget_default :: "pydict \<Rightarrow> string \<Rightarrow> pyval \<Rightarrow> pyval" where
  "dget_default d k v0 = (case map_of d k of None \<Rightarrow> v0 | Some v \<Rightarrow> v)"

fun val_get :: "pyval \<Rightarrow> string \<Rightarrow> exn + pyval" where
  "val_get (PDict d) k = Inr (dget d k)"
| "val_get _ k = Inl AttributeError"

fun val_get_default :: "pyval \<Rightarrow> string \<Rightarrow> pyval \<Rightarrow> exn + pyval" where
  "val_get_default (PDict d) k v0 = Inr (dget_default d k v0)"
| "val_get_default _ k v0 = Inl AttributeError"

text \<open>\<open>a.update(b)\<close>: the items of \<open>b\<close> are stored in \<open>a\<close> one after the other.\<close>

definition dict_update :: "pydict \<Rightarrow> pydict \<Rightarrow> pydict" where
  "dict_update a b = fold (\<lambda>(k, v). AList.update k v) b a"


text \<open>
  What the agent takes from outside the repository: the answers of the text-completion
  service, one for each call in the order of the calls (a text, or a failure with the text
  of the error); the JSON and literal parsers (\<open>None\<close> when they raise); the formatting
  and parsing of values and dates; the lookup of a user by e-mail address; today's date.
\<close>

datatype llm_result = LlmOk string | LlmError string


text \<open>
  A reply of the agent: the dictionary with the keys \<open>success\<close> and \<open>message\<close> (the field \<open>message_text\<close>) and, on
  two replies, \<open>needs_llm_enhancement\<close>.
\<close>

record response =
  success :: bool
  message_text :: string
  needs_llm_enhancement :: bool

definition reply :: "bool \<Rightarrow> string \<Rightarrow> response" where
  "reply ok msg = \<lparr>success = ok, message_text = msg, needs_llm_enhancement = False\<rparr>"

subsection \<open>Rephrasing a reply\<close>

text \<open>
  The note appended after a rate-limit failure. Its first four characters are the bytes
  of the light-bulb sign in UTF-8.
\<close>

definition rate_limit_note :: string where
  "rate_limit_note =
     [CHR 0x0A, CHR 0x0A, CHR 0xF0, CHR 0x9F, CHR 0x92, CHR 0xA1]
     @ '' *Note: AI service is experiencing high usage, but all functionality is available.*''"

definition is_rate_limit :: "string \<Rightarrow> bool" where
  "is_rate_limit err = (str_contains err ''429'' \<or> str_contains (lower err) ''quota'')"

text \<open>
  \<open>SchedulingAgent._enhance_response_with_llm\<close>, given the answer of its one call of the
  text-completion service. It returns the reply as the call leaves it (the note is written
  into the reply in place) and the enhanced reply, if there is one.
\<close>

definition enhance_response_with_llm :: "llm_result \<Rightarrow> response \<Rightarrow> response \<times> response option" where
  "enhance_response_with_llm answer r =
     (case answer of
        LlmOk content \<Rightarrow>
          (let enhanced_message = strip content in
           if length enhanced_message > 10 \<and> length enhanced_message < 500
           then (r, Some (r\<lparr>message_text := enhanced_message\<rparr>))
           else (r, None))
      | LlmError err \<Rightarrow>
          (if is_rate_limit err
           then (let original_message = message_text r in
                 if \<not> any_in [''api'', ''limit'', ''quota'', ''temporarily''] (lower original_message)
                 then (r\<lparr>message_text := original_message @ rate_limit_note\<rparr>, None)
                 else (r, None))
           else (r, None)))"

text \<open>The reply that \<open>process_message\<close> goes on with after the call.\<close>

definition enhanced_reply :: "llm_result \<Rightarrow> response \<Rightarrow> response" where
  "enhanced_reply answer r =
     (case enhance_response_with_llm answer r of
        (r', None) \<Rightarrow> r'
      | (r', Some e) \<Rightarrow> e)"


subsection \<open>Creating a meeting from the agent's dictionary\<close>





section \<open>Example data\<close>










section \<open>Auxiliary facts\<close>

lemmas time_defs = at_time_def replace_hour_def date_of_def hour_of_def minute_of_def weekday_def
  timedelta_days_def timedelta_minutes_def us_per_day_def us_per_hour_def us_per_minute_def

lemmas slot_defs = get_meeting_suggestions_def suggestions_from.simps day_slots_def make_slot_def
  all_available_def check_meeting_conflicts_def






text \<open>Which slots the enumeration produces, and their order.\<close>

lemma day_slots_iff:
  "g \<in> set (day_slots db ps dur c) \<longleftrightarrow>
     (\<exists>h. 9 \<le> h \<and> h \<le> 16 \<and> g = make_slot ps dur c h
          \<and> all_available db ps (sug_start g) (sug_end g))"
proof -
  have "set (map (make_slot ps dur c) [9..16]) = {g. \<exists>h. 9 \<le> h \<and> h \<le> 16 \<and> g = make_slot ps dur c h}"
    unfolding set_map set_upto by (rule set_eqI) (simp add: image_iff Bex_def conj_ac)
  then show ?thesis
    unfolding day_slots_def set_filter by blast
qed

lemma suggestions_from_iff:
  "g \<in> set (suggestions_from db ps dur c e) \<longleftrightarrow>
     (\<exists>k::nat. c + int k * us_per_day \<le> e \<and> g \<in> set (day_slots db ps dur (c + int k * us_per_day)))"
proof (induction db ps dur c e rule: suggestions_from.induct)
  case (1 db ps dur c e)
  show ?case
  proof (cases "c \<le> e")
    case False
    have "\<not> c + int k * us_per_day \<le> e" for k
    proof -
      have "0 \<le> int k * us_per_day" by (simp add: us_per_day_def)
      with False show ?thesis by linarith
    qed
    with False show ?thesis by (simp add: suggestions_from.simps[of db ps dur c e])
  next
    case True
    note IH = 1[OF True]
    have step: "c + timedelta_days 1 + int k * us_per_day = c + int (Suc k) * us_per_day" for k
      by (simp add: timedelta_days_def algebra_simps)
    show ?thesis
    proof
      assume "g \<in> set (suggestions_from db ps dur c e)"
      then consider "g \<in> set (day_slots db ps dur c)"
        | "g \<in> set (suggestions_from db ps dur (c + timedelta_days 1) e)"
        using True by (auto simp: suggestions_from.simps[of db ps dur c e])
      then show "\<exists>k::nat. c + int k * us_per_day \<le> e \<and> g \<in> set (day_slots db ps dur (c + int k * us_per_day))"
      proof cases
        case 1
        with True show ?thesis by (intro exI[of _ 0]) simp
      next
        case 2
        with IH obtain k where "c + timedelta_days 1 + int k * us_per_day \<le> e"
          "g \<in> set (day_slots db ps dur (c + timedelta_days 1 + int k * us_per_day))" by auto
        then show ?thesis unfolding step by blast
      qed
    next
      assume "\<exists>k::nat. c + int k * us_per_day \<le> e \<and> g \<in> set (day_slots db ps dur (c + int k * us_per_day))"
      then obtain k where k: "c + int k * us_per_day \<le> e"
        "g \<in> set (day_slots db ps dur (c + int k * us_per_day))" by auto
      show "g \<in> set (suggestions_from db ps dur c e)"
      proof (cases k)
        case 0
        with k True show ?thesis by (simp add: suggestions_from.simps[of db ps dur c e])
      next
        case (Suc k')
        with k have "c + timedelta_days 1 + int k' * us_per_day \<le> e"
          "g \<in> set (day_slots db ps dur (c + timedelta_days 1 + int k' * us_per_day))"
          unfolding step by simp_all
        with IH have "g \<in> set (suggestions_from db ps dur (c + timedelta_days 1) e)" by blast
        with True show ?thesis by (simp add: suggestions_from.simps[of db ps dur c e])
      qed
    qed
  qed
qed

lemma date_of_add_days: "date_of (c + int k * us_per_day) = date_of c + int k"
  by (simp add: date_of_def us_per_day_def)

lemma make_slot_time:
  assumes "9 \<le> h" "h \<le> 16"
  shows "date_of (sug_start (make_slot ps dur c h)) = date_of c"
    and "hour_of (sug_start (make_slot ps dur c h)) = h"
    and "minute_of (sug_start (make_slot ps dur c h)) = 0"
    and "sug_start (make_slot ps dur c h) = at_time (date_of c) h 0"
    and "sug_end (make_slot ps dur c h) = sug_start (make_slot ps dur c h) + timedelta_minutes dur"
    and "participant_count (make_slot ps dur c h) = length ps"
proof -
  have s: "sug_start (make_slot ps dur c h) = date_of c * 86400000000 + h * 3600000000"
    by (simp add: make_slot_def replace_hour_def Let_def us_per_day_def us_per_hour_def)
  have lo: "0 \<le> h * 3600000000" and hi: "h * 3600000000 < 86400000000" using assms by auto
  have d: "(date_of c * 86400000000 + h * 3600000000) div 86400000000 = date_of c"
    using lo hi by (simp add: div_pos_pos_trivial)
  have m: "(date_of c * 86400000000 + h * 3600000000) mod 86400000000 = h * 3600000000"
    using lo hi by (simp add: mod_pos_pos_trivial)
  show "date_of (sug_start (make_slot ps dur c h)) = date_of c"
    unfolding s using d by (simp add: date_of_def[of "_ + _"] us_per_day_def)
  show "hour_of (sug_start (make_slot ps dur c h)) = h"
    unfolding s hour_of_def us_per_day_def us_per_hour_def m by simp
  show "minute_of (sug_start (make_slot ps dur c h)) = 0"
    unfolding s minute_of_def us_per_day_def us_per_hour_def us_per_minute_def m by simp
  show "sug_start (make_slot ps dur c h) = at_time (date_of c) h 0"
    unfolding s by (simp add: at_time_def us_per_day_def us_per_hour_def)
  show "sug_end (make_slot ps dur c h) = sug_start (make_slot ps dur c h) + timedelta_minutes dur"
    by (simp add: make_slot_def Let_def)
  show "participant_count (make_slot ps dur c h) = length ps"
    by (simp add: make_slot_def Let_def)
qed

lemma day_slots_sorted:
  "sorted_wrt (\<lambda>a b. sug_start a < sug_start b) (day_slots db ps dur c)"
proof -
  have "sorted_wrt (\<lambda>h h'. sug_start (make_slot ps dur c h) < sug_start (make_slot ps dur c h')) [9..16]"
    by (rule sorted_wrt_mono_rel[OF _ sorted_wrt_upto])
       (simp add: make_slot_def Let_def replace_hour_def us_per_hour_def)
  then show ?thesis
    unfolding day_slots_def by (intro sorted_wrt_filter) (simp add: sorted_wrt_map)
qed

lemma suggestions_from_sorted:
  "sorted_wrt (\<lambda>a b. sug_start a < sug_start b) (suggestions_from db ps dur c e)"
proof (induction db ps dur c e rule: suggestions_from.induct)
  case (1 db ps dur c e)
  show ?case
  proof (cases "c \<le> e")
    case False
    then show ?thesis by (simp add: suggestions_from.simps[of db ps dur c e])
  next
    case True
    have cross: "sug_start a < sug_start b"
      if a: "a \<in> set (day_slots db ps dur c)"
      and b: "b \<in> set (suggestions_from db ps dur (c + timedelta_days 1) e)" for a b
    proof -
      from a obtain h where h: "9 \<le> h" "h \<le> 16" "a = make_slot ps dur c h"
        unfolding day_slots_iff by blast
      from b obtain k h' where h': "9 \<le> h'" "h' \<le> 16"
        "b = make_slot ps dur (c + timedelta_days 1 + int k * us_per_day) h'"
        unfolding suggestions_from_iff day_slots_iff by blast
      have "c + timedelta_days 1 + int k * us_per_day = c + int (Suc k) * us_per_day"
        by (simp add: timedelta_days_def algebra_simps)
      then have db: "date_of (c + timedelta_days 1 + int k * us_per_day) = date_of c + int (Suc k)"
        by (simp only: date_of_add_days)
      have sa: "sug_start a = date_of c * 86400000000 + h * 3600000000"
        using h by (simp add: make_slot_time(4) at_time_def us_per_day_def us_per_hour_def)
      have sb: "sug_start b = (date_of c + int (Suc k)) * 86400000000 + h' * 3600000000"
        using h' db by (simp add: make_slot_time(4) at_time_def us_per_day_def us_per_hour_def)
      show ?thesis unfolding sa sb using h h' by (simp add: algebra_simps)
    qed
    show ?thesis
      using True 1[OF True] day_slots_sorted cross
      by (simp add: suggestions_from.simps[of db ps dur c e] sorted_wrt_append)
  qed
qed





lemma replace_row_length: "length (replace_row i m' db) = length db"
  by (induction db) auto


lemma apply_update_id: "meeting_id (apply_update u m) = meeting_id m"
  by (simp add: apply_update_def)

lemma get_meeting_replace_row:
  "get_meeting db i = Some m \<Longrightarrow> meeting_id m' = i \<Longrightarrow> get_meeting (replace_row i m' db) i = Some m'"
  unfolding get_meeting_def by (induction db) (auto split: if_splits)














section \<open>Properties of the conflict detector\<close>


section \<open>Properties of the optimal-time query\<close>




section \<open>Properties of the suggestion query\<close>

text \<open>
  C6. The claim asks for the candidate slots of each date in the range. For the range from
  day 0 at 14:00 to day 1 at 09:00 and an empty table, the suggestion query returns the eight
  slots of day 0 and no slot of day 1, although day 1 is the date of the end of the range
  and its 09:00 slot is free for the participant: the loop compares \<open>current_date\<close>, which
  keeps the time of day of the start, with the end of the range.
\<close>

theorem get_meeting_suggestions_skips_end_date:
  "map sug_start (get_meeting_suggestions [] [PInt 1] 60 (at_time 0 14 0) (at_time 1 9 0))
     = [at_time 0 9 0, at_time 0 10 0, at_time 0 11 0, at_time 0 12 0,
        at_time 0 13 0, at_time 0 14 0, at_time 0 15 0, at_time 0 16 0]
   \<and> date_of (at_time 0 14 0) = 0 \<and> date_of (at_time 1 9 0) = 1
   \<and> all_available [] [PInt 1] (at_time 1 9 0) (at_time 1 9 0 + timedelta_minutes 60)"
  by (simp add: slot_defs time_defs upto.simps Let_def)

section \<open>Properties of the auto-reschedule operation\<close>




section \<open>Properties of meeting creation\<close>



section \<open>Properties of the rephrasing of replies\<close>

text \<open>
  C7, as amended. The rephrased text, stripped of white space at its ends, replaces the
  reply exactly when its length is greater than 10 and less than 500. When the call fails,
  the reply is kept; its text is unchanged unless the failure is a rate limit (the error
  text contains 429 or quota) and the text does not mention api, limit, quota or
  temporarily, in which case a note is appended. The other fields stay as they are.
\<close>

theorem enhance_response_with_llm_bounds:
  "enhanced_reply (LlmOk content) r =
     (if 11 \<le> length (strip content) \<and> length (strip content) \<le> 499
      then r\<lparr>message_text := strip content\<rparr> else r)
   \<and> enhanced_reply (LlmError err) r =
     (if is_rate_limit err
         \<and> \<not> any_in [''api'', ''limit'', ''quota'', ''temporarily''] (lower (message_text r))
      then r\<lparr>message_text := message_text r @ rate_limit_note\<rparr> else r)
   \<and> success (enhanced_reply answer r) = success r
   \<and> needs_llm_enhancement (enhanced_reply answer r) = needs_llm_enhancement r"
  by (cases answer)
     (auto simp: enhanced_reply_def enhance_response_with_llm_def Let_def)

text \<open>
  The claim as stated fails at both ends: a rephrasing of exactly 10 characters does not
  replace the reply, and after a rate-limit failure the reply is not the original text.
\<close>

theorem enhance_response_with_llm_rejects_length_10:
  "length (strip ''0123456789'') = 10
   \<and> enhanced_reply (LlmOk ''0123456789'') (reply True ''Done.'') = reply True ''Done.''
   \<and> enhanced_reply (LlmError ''429 Too Many Requests'') (reply True ''Done.'')
       = reply True (''Done.'' @ rate_limit_note)"
  by (simp add: enhanced_reply_def enhance_response_with_llm_def reply_def strip_def is_space_def
      is_rate_limit_def any_in_def lower_def lower_char_def Let_def)

section \<open>Properties of the intent classifier\<close>

text \<open>
  C10. The intent classifier never returns the delete-all intent: the delete-all rule
  needs one of the keywords cancel, delete, remove, and each of them already satisfies the
  delete rule, which is checked first.
\<close>

theorem analyze_intent_never_delete_all:
  "analyze_intent message \<noteq> DeleteAllMeetings"
  by (simp add: analyze_intent_def any_in_def Let_def)

end
